theory Spec2Isabelle
  imports Complex_Main "HOL-Library.Sublist"
begin

section \<open>Strings, exceptions and the library calls of main.py\<close>

text \<open>
  A Python \<open>str\<close> is modelled by its UTF-8 encoding, a \<^typ>\<open>string\<close> of 8-bit
  characters: every separator main.py splits on (\<open>://\<close>, \<open>#\<close>, \<open>?\<close>, \<open>@\<close>,
  \<open>:\<close>) is ASCII, and an ASCII byte never occurs inside the encoding of another code
  point, so splitting the bytes is splitting the text. Exceptions are values: a
  function that can raise returns \<open>py_error + 'a\<close>, with \<open>Inl\<close> the exception.
\<close>

datatype py_error = IndexError | ValueError | BinasciiError | UnicodeError | OtherError

text \<open>\<open>xs[i]\<close> for a non-negative index: IndexError out of range.\<close>

definition py_nth :: "'a list \<Rightarrow> nat \<Rightarrow> py_error + 'a" where
  "py_nth xs i = (if i < length xs then Inr (xs ! i) else Inl IndexError)"

text \<open>\<open>sub in s\<close> on strings: \<open>sub\<close> occurs in \<open>s\<close> as a contiguous block.\<close>

fun contains :: "string \<Rightarrow> string \<Rightarrow> bool" where
  "contains [] sub = (sub = [])"
| "contains (c # cs) sub = (prefix sub (c # cs) \<or> contains cs sub)"

text \<open>
  \<open>s.split(sep)\<close>: cut at every occurrence of \<open>sep\<close>, scanning from the left, without
  overlaps. Python raises ValueError on an empty separator; main.py only passes the
  literals above, and the model never cuts on an empty one.
\<close>

function split_py :: "string \<Rightarrow> string \<Rightarrow> string list" where
  "split_py [] sep = [[]]"
| "split_py (c # cs) sep =
     (if sep \<noteq> [] \<and> prefix sep (c # cs)
      then [] # split_py (drop (length sep) (c # cs)) sep
      else (case split_py cs sep of
              [] \<Rightarrow> [[c]]
            | w # ws \<Rightarrow> (c # w) # ws))"
  by pat_completeness auto
termination
  by (relation "measure (\<lambda>(s, sep). length s)") (auto simp: neq_Nil_conv)

text \<open>\<open>s.split(sep, 1)\<close>: cut at the first occurrence only.\<close>

fun split1_py :: "string \<Rightarrow> string \<Rightarrow> string list" where
  "split1_py [] sep = [[]]"
| "split1_py (c # cs) sep =
     (if sep \<noteq> [] \<and> prefix sep (c # cs)
      then [[], drop (length sep) (c # cs)]
      else (case split1_py cs sep of
              [] \<Rightarrow> [[c]]
            | w # ws \<Rightarrow> (c # w) # ws))"

text \<open>
  \<open>s.rsplit(sep, 1)\<close>: cut at the last occurrence only, which is the first occurrence
  of the reversed separator in the reversed string.
\<close>

definition rsplit1_py :: "string \<Rightarrow> string \<Rightarrow> string list" where
  "rsplit1_py s sep = rev (map rev (split1_py (rev s) (rev sep)))"

text \<open>\<open>s.strip(chars)\<close>: drop the characters of \<open>chars\<close> from both ends.\<close>

definition strip_py :: "string \<Rightarrow> string \<Rightarrow> string" where
  "strip_py s chars =
     rev (dropWhile (\<lambda>c. c \<in> set chars) (rev (dropWhile (\<lambda>c. c \<in> set chars) s)))"

text \<open>
  \<open>int(s)\<close> on a string, base 10: surrounding whitespace is dropped, one sign is
  allowed, then decimal digits, with single underscores between digits; anything else
  is ValueError (here \<open>None\<close>). The model is the ASCII form of the literal
  (space, tab, newline, vertical tab, form feed and carriage return as whitespace):
  Python also takes the decimal digits and spaces of other scripts, which the port of a
  descriptor does not use, and from version 3.11 refuses literals of more than 4300
  digits.
\<close>

definition is_space :: "char \<Rightarrow> bool" where
  "is_space c = (c \<in> set [CHR 0x09, CHR 0x0A, CHR 0x0B, CHR 0x0C, CHR 0x0D, CHR '' ''])"

definition is_digit :: "char \<Rightarrow> bool" where
  "is_digit c = (48 \<le> (of_char c :: nat) \<and> (of_char c :: nat) \<le> 57)"

definition digit_value :: "char \<Rightarrow> int" where
  "digit_value c = int (of_char c) - 48"

fun int_body_ok :: "string \<Rightarrow> bool" where
  "int_body_ok [] = False"
| "int_body_ok [c] = is_digit c"
| "int_body_ok (c # d # cs) =
     (is_digit c \<and> (if d = CHR ''_'' then int_body_ok cs else int_body_ok (d # cs)))"

definition int_body_value :: "string \<Rightarrow> int" where
  "int_body_value body =
     foldl (\<lambda>a c. 10 * a + digit_value c) 0 (filter (\<lambda>c. c \<noteq> CHR ''_'') body)"

definition py_int :: "string \<Rightarrow> int option" where
  "py_int s =
     (let t = rev (dropWhile is_space (rev (dropWhile is_space s)))
      in case t of
           [] \<Rightarrow> None
         | c # r \<Rightarrow>
             (if c = CHR ''-'' then (if int_body_ok r then Some (- int_body_value r) else None)
              else if c = CHR ''+'' then (if int_body_ok r then Some (int_body_value r) else None)
              else (if int_body_ok t then Some (int_body_value t) else None)))"

text \<open>
  \<open>int(x)\<close> on a finite float: the integer part, truncated toward zero. A float is a
  rational number; the clock readings and their difference are taken as reals.
\<close>

definition int_of_float :: "real \<Rightarrow> int" where
  "int_of_float x = (if 0 \<le> x then \<lfloor>x\<rfloor> else \<lceil>x\<rceil>)"

section \<open>V2RayPingTester.test_single: the endpoint parser and the probe\<close>

text \<open>
  Lines 77 to 91 of main.py, the part of \<open>test_single\<close> before the socket is opened.
  \<open>Inr None\<close> is the early \<open>return None\<close> of line 77, \<open>Inl e\<close> an exception
  raised by an index or by \<open>int\<close>, \<open>Inr (Some (host, port))\<close> the pair handed to
  \<open>socket.create_connection\<close>.
\<close>

definition parse_target :: "string \<Rightarrow> py_error + (string \<times> int) option" where
  "parse_target cfg =
     (if \<not> contains cfg ''://'' then Inr None
      else case py_nth (split_py cfg ''://'') 1 of
        Inl e \<Rightarrow> Inl e
      | Inr uri_part \<Rightarrow>
      (case py_nth (split_py uri_part ''#'') 0 of
        Inl e \<Rightarrow> Inl e
      | Inr before_fragment \<Rightarrow>
      (case py_nth (split_py before_fragment ''?'') 0 of
        Inl e \<Rightarrow> Inl e
      | Inr host_part \<Rightarrow>
      (case (if contains host_part ''@'' then py_nth (split_py host_part ''@'') 1
             else Inr host_part) of
        Inl e \<Rightarrow> Inl e
      | Inr host_port_str \<Rightarrow>
      (if contains host_port_str '':''
       then (case py_nth (rsplit1_py host_port_str '':'') 0 of
               Inl e \<Rightarrow> Inl e
             | Inr h \<Rightarrow>
             (case py_nth (rsplit1_py host_port_str '':'') 1 of
               Inl e \<Rightarrow> Inl e
             | Inr port_text \<Rightarrow>
             (case py_int port_text of
               None \<Rightarrow> Inl ValueError
             | Some p \<Rightarrow> Inr (Some (strip_py h ''[]'', p)))))
       else Inr (Some (host_port_str, 443)))))))"

text \<open>
  The Endpoint Parser as the caller sees it: every exception of the parsing steps is
  caught by the handlers of lines 97 to 100 and becomes the rejection \<open>None\<close>.
\<close>

definition endpoint_parser :: "string \<Rightarrow> (string \<times> int) option" where
  "endpoint_parser cfg = (case parse_target cfg of Inl e \<Rightarrow> None | Inr r \<Rightarrow> r)"

text \<open>The spec's invariant of a ParsedTarget: a port in [1, 65535] and a non-empty host.\<close>

definition valid_target :: "string \<times> int \<Rightarrow> bool" where
  "valid_target t = (1 \<le> snd t \<and> snd t \<le> 65535 \<and> fst t \<noteq> [])"

text \<open>The dictionary \<open>{'config': ..., 'ping': ..., 'host': ...}\<close> of line 96.\<close>

record probe_result =
  config :: string
  ping :: int
  host :: string

text \<open>
  \<open>test_single\<close>. The network is the parameter \<open>conn\<close>: \<open>conn h p\<close> is \<open>None\<close>
  when \<open>socket.create_connection((h, p), timeout)\<close> raises (timeout, refusal, name
  resolution, a port the socket layer refuses: all caught, lines 97 to 100), and
  \<open>Some (t0, t1)\<close> when it connects, \<open>t0\<close> the reading of \<open>time.time()\<close> of line 93
  and \<open>t1\<close> the reading of line 95, in seconds.
\<close>

definition test_single ::
  "(string \<Rightarrow> int \<Rightarrow> (real \<times> real) option) \<Rightarrow> string \<Rightarrow> probe_result option" where
  "test_single conn cfg =
     (case parse_target cfg of
        Inl e \<Rightarrow> None
      | Inr None \<Rightarrow> None
      | Inr (Some (h, p)) \<Rightarrow>
          (case conn h p of
             None \<Rightarrow> None
           | Some (t0, t1) \<Rightarrow>
               Some \<lparr>config = cfg, ping = int_of_float ((t1 - t0) * 1000), host = h\<rparr>))"

text \<open>
  \<open>run\<close>. \<open>completed\<close> is the list of descriptors in the order in which their
  futures complete (\<open>as_completed\<close>, line 109): some permutation of \<open>self.configs\<close>,
  chosen by the thread pool. \<open>world c\<close> is the network as the probe of descriptor
  \<open>c\<close> finds it. The results that are not \<open>None\<close> are appended in that order and
  sorted by \<open>ping\<close>; \<open>sorted\<close> is stable, as \<^const>\<open>sort_key\<close> is.
\<close>

definition run ::
  "(string \<Rightarrow> string \<Rightarrow> int \<Rightarrow> (real \<times> real) option) \<Rightarrow> string list \<Rightarrow> probe_result list" where
  "run world completed =
     sort_key ping (List.map_filter (\<lambda>c. test_single (world c) c) completed)"

section \<open>Percent-encoding, number formatting and joining\<close>

text \<open>
  \<open>urllib.parse.quote(s)\<close> with its default \<open>safe='/'\<close>: the string is encoded as
  UTF-8 (it is already, here) and every byte that is not a letter, a digit, one of
  \<open>_.-~\<close> or \<open>/\<close> becomes \<open>%XX\<close> with upper-case hexadecimal digits.
\<close>

definition always_safe :: "char \<Rightarrow> bool" where
  "always_safe c =
     (let n = (of_char c :: nat)
      in (65 \<le> n \<and> n \<le> 90) \<or> (97 \<le> n \<and> n \<le> 122) \<or> (48 \<le> n \<and> n \<le> 57)
         \<or> c \<in> set ''_.-~'')"

definition hex_digit :: "nat \<Rightarrow> char" where
  "hex_digit n = (if n < 10 then char_of (48 + n) else char_of (55 + n))"

definition quote_byte :: "char \<Rightarrow> string" where
  "quote_byte c =
     (if always_safe c \<or> c = CHR ''/'' then [c]
      else [CHR ''%'', hex_digit ((of_char c :: nat) div 16), hex_digit ((of_char c :: nat) mod 16)])"

definition quote :: "string \<Rightarrow> string" where
  "quote s = concat (map quote_byte s)"

text \<open>\<open>str(n)\<close> for a natural number, and the format \<open>{i:03d}\<close> of line 160.\<close>

fun str_nat :: "nat \<Rightarrow> string" where
  "str_nat n =
     (if n < 10 then [char_of (48 + n)] else str_nat (n div 10) @ [char_of (48 + n mod 10)])"

definition format_03d :: "nat \<Rightarrow> string" where
  "format_03d n = replicate (3 - length (str_nat n)) (CHR ''0'') @ str_nat n"

text \<open>\<open>sep.join(xs)\<close>.\<close>

fun join_py :: "string \<Rightarrow> string list \<Rightarrow> string" where
  "join_py sep [] = []"
| "join_py sep [x] = x"
| "join_py sep (x # y # ys) = x @ sep @ join_py sep (y # ys)"

text \<open>\<open>os.path.join(a, b)\<close> of posixpath: an absolute \<open>b\<close> replaces \<open>a\<close>.\<close>

definition path_join :: "string \<Rightarrow> string \<Rightarrow> string" where
  "path_join a b =
     (if prefix ''/'' b then b
      else if a = [] \<or> suffix ''/'' a then a @ b
      else a @ ''/'' @ b)"

section \<open>Base64: b64encode and b64decode\<close>

text \<open>
  Bytes are read as numbers below 256. \<open>b64_char\<close> is the alphabet of the encoder,
  \<open>b64_value\<close> the decoder's table (\<open>None\<close> for a byte outside the alphabet).
\<close>

definition b64_char :: "nat \<Rightarrow> char" where
  "b64_char n =
     (if n < 26 then char_of (65 + n)
      else if n < 52 then char_of (71 + n)
      else if n < 62 then char_of (n - 4)
      else if n = 62 then CHR ''+''
      else CHR ''/'')"

definition b64_value :: "char \<Rightarrow> nat option" where
  "b64_value c =
     (let n = (of_char c :: nat)
      in if 65 \<le> n \<and> n \<le> 90 then Some (n - 65)
         else if 97 \<le> n \<and> n \<le> 122 then Some (n - 71)
         else if 48 \<le> n \<and> n \<le> 57 then Some (n + 4)
         else if c = CHR ''+'' then Some 62
         else if c = CHR ''/'' then Some 63
         else None)"

text \<open>
  \<open>base64.b64encode\<close>: three bytes become four characters; a final group of one or
  two bytes is padded with \<open>=\<close>.
\<close>

fun b64encode :: "string \<Rightarrow> string" where
  "b64encode [] = []"
| "b64encode [a] =
     (let x = (of_char a :: nat)
      in [b64_char (x div 4), b64_char (x mod 4 * 16), CHR ''='', CHR ''=''])"
| "b64encode [a, b] =
     (let x = (of_char a :: nat); y = (of_char b :: nat)
      in [b64_char (x div 4), b64_char (x mod 4 * 16 + y div 16),
          b64_char (y mod 16 * 4), CHR ''=''])"
| "b64encode (a # b # c # rest) =
     (let x = (of_char a :: nat); y = (of_char b :: nat); z = (of_char c :: nat)
      in [b64_char (x div 4), b64_char (x mod 4 * 16 + y div 16),
          b64_char (y mod 16 * 4 + z div 64), b64_char (z mod 64)] @ b64encode rest)"

text \<open>A byte put in front of the output of the rest of the decoding, if that succeeds.\<close>

definition emit :: "nat \<Rightarrow> py_error + string \<Rightarrow> py_error + string" where
  "emit b r = (case r of Inl e \<Rightarrow> Inl e | Inr out \<Rightarrow> Inr (char_of (b mod 256) # out))"

text \<open>
  \<open>binascii.a2b_base64\<close> in its default, non-strict mode, which \<open>base64.b64decode\<close>
  calls: bytes outside the alphabet are skipped; \<open>quad_pos\<close> counts the characters of
  the current group of four and \<open>leftchar\<close> holds the bits not yet written; a \<open>=\<close>
  that completes a group which already holds two characters ends the decoding, any
  other \<open>=\<close> is skipped; input that ends inside a group is an error
  (\<open>binascii.Error\<close>).
\<close>

fun a2b_base64 :: "nat \<Rightarrow> nat \<Rightarrow> nat \<Rightarrow> string \<Rightarrow> py_error + string" where
  "a2b_base64 quad_pos leftchar pads [] =
     (if quad_pos \<noteq> 0 then Inl BinasciiError else Inr [])"
| "a2b_base64 quad_pos leftchar pads (c # cs) =
     (if c = CHR ''='' then
        (if 2 \<le> quad_pos then
           (if 4 \<le> quad_pos + (pads + 1) then Inr []
            else a2b_base64 quad_pos leftchar (pads + 1) cs)
         else a2b_base64 quad_pos leftchar pads cs)
      else case b64_value c of
        None \<Rightarrow> a2b_base64 quad_pos leftchar pads cs
      | Some v \<Rightarrow>
          (if quad_pos = 0 then a2b_base64 1 v 0 cs
           else if quad_pos = 1 then emit (leftchar * 4 + v div 16) (a2b_base64 2 (v mod 16) 0 cs)
           else if quad_pos = 2 then emit (leftchar * 16 + v div 4) (a2b_base64 3 (v mod 4) 0 cs)
           else emit (leftchar * 64 + v) (a2b_base64 0 0 0 cs)))"

text \<open>
  \<open>base64.b64decode(s)\<close> on a \<open>str\<close>: the string is first encoded as ASCII, which
  raises ValueError when it holds any other character.
\<close>

definition b64decode :: "string \<Rightarrow> py_error + string" where
  "b64decode s =
     (if \<exists>c \<in> set s. 128 \<le> (of_char c :: nat) then Inl ValueError
      else a2b_base64 0 0 0 s)"

section \<open>get_sources: decoding and collecting the descriptors\<close>

text \<open>\<open>len(s)\<close> counts code points: the bytes that are not UTF-8 continuation bytes.\<close>

definition is_cont :: "char \<Rightarrow> bool" where
  "is_cont c = (128 \<le> (of_char c :: nat) \<and> (of_char c :: nat) < 192)"

definition len_py :: "string \<Rightarrow> nat" where
  "len_py s = length (filter (\<lambda>c. \<not> is_cont c) s)"

text \<open>
  \<open>bytes.decode('utf-8', errors='ignore')\<close>: well-formed sequences are kept and the
  bytes the decoder reports as an error are dropped. \<open>utf8_step b bs\<close> looks at the
  byte \<open>b\<close> and the bytes \<open>bs\<close> after it, and returns how many bytes of \<open>bs\<close> go
  with \<open>b\<close> and whether they are kept: an invalid start byte goes alone; a sequence
  broken by a byte that cannot continue it is dropped up to that byte; a sequence cut
  off by the end of the data is dropped to the end.
\<close>

definition utf8_step :: "char \<Rightarrow> string \<Rightarrow> nat \<times> bool" where
  "utf8_step b bs =
     (let ch = (of_char b :: nat)
      in if ch < 0x80 then (0, True)
         else if ch < 0xC2 then (0, False)
         else if ch < 0xE0 then
           (case bs of
              [] \<Rightarrow> (0, False)
            | b2 # r2 \<Rightarrow> if \<not> is_cont b2 then (0, False) else (1, True))
         else if ch < 0xF0 then
           (case bs of
              [] \<Rightarrow> (0, False)
            | b2 # r2 \<Rightarrow>
                if \<not> is_cont b2
                   \<or> (if (of_char b2 :: nat) < 0xA0 then ch = 0xE0 else ch = 0xED)
                then (0, False)
                else (case r2 of
                        [] \<Rightarrow> (1, False)
                      | b3 # r3 \<Rightarrow> if \<not> is_cont b3 then (1, False) else (2, True)))
         else if ch < 0xF5 then
           (case bs of
              [] \<Rightarrow> (0, False)
            | b2 # r2 \<Rightarrow>
                if \<not> is_cont b2
                   \<or> (if (of_char b2 :: nat) < 0x90 then ch = 0xF0 else ch = 0xF4)
                then (0, False)
                else (case r2 of
                        [] \<Rightarrow> (1, False)
                      | b3 # r3 \<Rightarrow>
                          if \<not> is_cont b3 then (1, False)
                          else (case r3 of
                                  [] \<Rightarrow> (2, False)
                                | b4 # r4 \<Rightarrow>
                                    if \<not> is_cont b4 then (2, False) else (3, True))))
         else (0, False))"

function utf8_decode_ignore :: "string \<Rightarrow> string" where
  "utf8_decode_ignore [] = []"
| "utf8_decode_ignore (b # bs) =
     (let k = fst (utf8_step b bs)
      in (if snd (utf8_step b bs) then b # take k bs else [])
         @ utf8_decode_ignore (drop k bs))"
  by pat_completeness auto
termination
  by (relation "measure length") auto

text \<open>
  \<open>str.splitlines()\<close>: the line boundaries are \<open>\n\<close>, \<open>\r\<close>, \<open>\r\n\<close>, \<open>\v\<close>,
  \<open>\f\<close>, \<open>\x1c\<close>, \<open>\x1d\<close>, \<open>\x1e\<close>, \<open>\x85\<close>, \<open>\u2028\<close> and \<open>\u2029\<close>
  (the last three in their UTF-8 form); the boundaries are not kept, and a boundary at
  the very end opens no further line. \<open>break_len s\<close> is the length of the boundary at
  the head of \<open>s\<close>, 0 when there is none.
\<close>

definition break_len :: "string \<Rightarrow> nat" where
  "break_len s =
     (case s of
        [] \<Rightarrow> 0
      | c # r \<Rightarrow>
          (if c = CHR 0x0D then (if prefix [CHR 0x0A] r then 2 else 1)
           else if c \<in> set [CHR 0x0A, CHR 0x0B, CHR 0x0C, CHR 0x1C, CHR 0x1D, CHR 0x1E] then 1
           else if c = CHR 0xC2 \<and> prefix [CHR 0x85] r then 2
           else if c = CHR 0xE2 \<and> (prefix [CHR 0x80, CHR 0xA8] r \<or> prefix [CHR 0x80, CHR 0xA9] r)
             then 3
           else 0))"

function splitlines :: "string \<Rightarrow> string list" where
  "splitlines [] = []"
| "splitlines (c # cs) =
     (if 0 < break_len (c # cs) then [] # splitlines (drop (break_len (c # cs)) (c # cs))
      else (case splitlines cs of
              [] \<Rightarrow> [[c]]
            | w # ws \<Rightarrow> (c # w) # ws))"
  by pat_completeness auto
termination
  by (relation "measure length") auto

text \<open>The outcome of \<open>requests.get\<close> and \<open>raise_for_status\<close> for one source.\<close>

datatype fetch = RequestException | Body string

text \<open>
  Lines 54 to 60: the body is padded with \<open>=\<close> to a multiple of four characters and
  decoded as Base64, then as UTF-8; when the Base64 decoding raises, the lines of the
  body are taken as they are (of the padded body: line 56 has already reassigned
  \<open>content\<close>).
\<close>

definition body_lines :: "string \<Rightarrow> string list" where
  "body_lines content0 =
     (let content = (if len_py content0 mod 4 \<noteq> 0
                     then content0 @ replicate (4 - len_py content0 mod 4) (CHR ''='')
                     else content0)
      in case b64decode content of
           Inr decoded \<Rightarrow> splitlines (utf8_decode_ignore decoded)
         | Inl e \<Rightarrow> splitlines content)"

text \<open>
  The set \<open>all_configs\<close> is a list without repetitions; \<open>set_update\<close> is
  \<open>set.update\<close>. Python fixes no order for the elements of a set, and nothing below
  depends on the one chosen here.
\<close>

definition set_update :: "string list \<Rightarrow> string list \<Rightarrow> string list" where
  "set_update acc xs = fold (\<lambda>x a. if x \<in> set a then a else a @ [x]) xs acc"

fun collect_sources :: "fetch list \<Rightarrow> string list \<Rightarrow> string list" where
  "collect_sources [] all_configs = all_configs"
| "collect_sources (RequestException # fs) all_configs = collect_sources fs all_configs"
| "collect_sources (Body content # fs) all_configs =
     collect_sources fs (set_update all_configs (body_lines content))"

text \<open>\<open>get_sources\<close>; \<open>filter(None, ...)\<close> keeps the strings that are not empty.\<close>

definition get_sources :: "fetch list \<Rightarrow> string list" where
  "get_sources fetched = filter (\<lambda>c. c \<noteq> []) (collect_sources fetched [])"

section \<open>Geo classification\<close>

text \<open>
  The glyphs. \<open>globe\<close> is U+1F310 in UTF-8. \<open>chr_utf8 n\<close> is \<open>chr(n)\<close> in UTF-8,
  for a code point that \<open>chr\<close> accepts.
\<close>

definition globe :: string where
  "globe = [CHR 0xF0, CHR 0x9F, CHR 0x8C, CHR 0x90]"

definition chr_utf8 :: "int \<Rightarrow> string" where
  "chr_utf8 n =
     (if n < 0x80 then [char_of n]
      else if n < 0x800 then [char_of (0xC0 + n div 64), char_of (0x80 + n mod 64)]
      else if n < 0x10000 then
        [char_of (0xE0 + n div 4096), char_of (0x80 + n div 64 mod 64), char_of (0x80 + n mod 64)]
      else
        [char_of (0xF0 + n div 262144), char_of (0x80 + n div 4096 mod 64),
         char_of (0x80 + n div 64 mod 64), char_of (0x80 + n mod 64)])"

text \<open>\<open>str.upper\<close> on the letters of an ISO country code, which are ASCII.\<close>

definition upper_ascii :: "char \<Rightarrow> char" where
  "upper_ascii c =
     (if 97 \<le> (of_char c :: int) \<and> (of_char c :: int) \<le> 122
      then char_of ((of_char c :: int) - 32) else c)"

text \<open>Line 126: each letter of the code moved up by 127397 code points.\<close>

definition flag_of :: "string \<Rightarrow> string" where
  "flag_of country_code =
     concat (map (\<lambda>c. chr_utf8 ((of_char (upper_ascii c) :: int) + 127397)) country_code)"

text \<open>
  What \<open>geo_reader.country(ip)\<close> does: it returns a response whose \<open>iso_code\<close> is a
  string or \<open>None\<close>, or raises \<open>AddressNotFoundError\<close>, \<open>ValueError\<close> or something
  else. What \<open>socket.gethostbyname(host)\<close> does: it returns an address, raises
  \<open>socket.gaierror\<close>, or raises something else (a host name that cannot be encoded).
\<close>

datatype geo_outcome =
  IsoCode "string option" | AddressNotFoundError | GeoValueError | GeoRaises py_error

datatype dns_outcome = Resolved string | Gaierror | DnsRaises py_error

text \<open>\<open>get_country_and_flag\<close>; \<open>geo_reader\<close> is \<open>None\<close> when the database file is absent.\<close>

definition get_country_and_flag ::
  "string \<Rightarrow> (string \<Rightarrow> geo_outcome) option \<Rightarrow> py_error + (string \<times> string)" where
  "get_country_and_flag ip_address geo_reader =
     (case geo_reader of
        None \<Rightarrow> Inr (''Unknown'', globe)
      | Some reader \<Rightarrow>
          (if ip_address = [] then Inr (''Unknown'', globe)
           else case reader ip_address of
             IsoCode (Some country_code) \<Rightarrow>
               (if country_code \<noteq> [] then Inr (country_code, flag_of country_code)
                else Inr (''Unknown'', globe))
           | IsoCode None \<Rightarrow> Inr (''Unknown'', globe)
           | AddressNotFoundError \<Rightarrow> Inr (''Unknown'', globe)
           | GeoValueError \<Rightarrow> Inr (''Unknown'', globe)
           | GeoRaises e \<Rightarrow> Inl e))"

text \<open>
  Lines 150 to 154 of \<open>main\<close>: the host is resolved and classified; only
  \<open>socket.gaierror\<close> is caught there.
\<close>

definition classify ::
  "(string \<Rightarrow> dns_outcome) \<Rightarrow> (string \<Rightarrow> geo_outcome) option \<Rightarrow> string
     \<Rightarrow> py_error + (string \<times> string)" where
  "classify gethostbyname geo_reader h =
     (case gethostbyname h of
        Resolved ip \<Rightarrow> get_country_and_flag ip geo_reader
      | Gaierror \<Rightarrow> Inr (''Unk.'', globe)
      | DnsRaises e \<Rightarrow> Inl e)"

section \<open>main: naming, grouping and writing\<close>

text \<open>\<open>random.choice(seq)\<close>, given the number \<open>r\<close> the generator draws: IndexError on
  an empty sequence.\<close>

definition choice :: "'a list \<Rightarrow> nat \<Rightarrow> py_error + 'a" where
  "choice seq r = (if seq = [] then Inl IndexError else Inr (seq ! (r mod length seq)))"

text \<open>
  Everything \<open>main\<close> reads from outside: the bodies fetched for the sources, the order
  in which the thread pool completes the probes, the network, the resolver, the geo
  database (absent when the file is), the pools of brands and emojis of settings.json,
  the numbers drawn by the random generator (\<open>rng k\<close> for its k-th call, counted from
  0) and the output directory.
\<close>

record env =
  fetched :: "fetch list"
  as_completed :: "string list \<Rightarrow> string list"
  world :: "string \<Rightarrow> string \<Rightarrow> int \<Rightarrow> (real \<times> real) option"
  gethostbyname :: "string \<Rightarrow> dns_outcome"
  geo_reader :: "(string \<Rightarrow> geo_outcome) option"
  brands_list :: "string list"
  emojis_list :: "string list"
  rng :: "nat \<Rightarrow> nat"
  out_dir :: string

text \<open>Line 160: the display name, from the tag, the rank and the two draws.\<close>

definition new_name :: "string \<Rightarrow> string \<Rightarrow> nat \<Rightarrow> string \<Rightarrow> string \<Rightarrow> string" where
  "new_name flag country i selected_brand selected_emoji =
     flag @ '' '' @ country @ '' #'' @ format_03d i @ '' |'' @ selected_brand @ '' ''
       @ selected_emoji"

text \<open>
  Lines 150 to 163 for the result \<open>res\<close> of rank \<open>i\<close>: the country and the rewritten
  descriptor, or the exception that ends \<open>main\<close>.
\<close>

definition name_config :: "env \<Rightarrow> nat \<Rightarrow> probe_result \<Rightarrow> py_error + (string \<times> string)" where
  "name_config E i res =
     (case classify (gethostbyname E) (geo_reader E) (host res) of
        Inl e \<Rightarrow> Inl e
      | Inr (country, flag) \<Rightarrow>
      (case choice (brands_list E) (rng E (2 * (i - 1))) of
        Inl e \<Rightarrow> Inl e
      | Inr selected_brand \<Rightarrow>
      (case choice (emojis_list E) (rng E (2 * (i - 1) + 1)) of
        Inl e \<Rightarrow> Inl e
      | Inr selected_emoji \<Rightarrow>
      (case py_nth (split_py (config res) ''#'') 0 of
        Inl e \<Rightarrow> Inl e
      | Inr original_link \<Rightarrow>
          Inr (country,
               original_link @ ''#''
                 @ quote (new_name flag country i selected_brand selected_emoji))))))"

text \<open>
  A \<open>defaultdict(list)\<close> keeps its keys in the order of their first insertion:
  an association list. \<open>group_append d k v\<close> is \<open>d[k].append(v)\<close>.
\<close>

fun group_append ::
  "(string \<times> string list) list \<Rightarrow> string \<Rightarrow> string \<Rightarrow> (string \<times> string list) list" where
  "group_append [] k v = [(k, [v])]"
| "group_append ((k', vs) # d) k v =
     (if k' = k then (k', vs @ [v]) # d else (k', vs) # group_append d k v)"

text \<open>\<open>d[k]\<close> read back; a key that was never inserted has no entries.\<close>

fun group_lookup :: "(string \<times> string list) list \<Rightarrow> string \<Rightarrow> string list" where
  "group_lookup [] k = []"
| "group_lookup ((k', vs) # d) k = (if k' = k then vs else group_lookup d k)"

text \<open>
  The state of the loop of lines 149 to 169: the results renamed so far (line 165
  overwrites \<open>res['config']\<close>), and the two groupings.
\<close>

record naming =
  renamed :: "probe_result list"
  by_country :: "(string \<times> string list) list"
  by_protocol :: "(string \<times> string list) list"

fun name_all :: "env \<Rightarrow> nat \<Rightarrow> probe_result list \<Rightarrow> naming \<Rightarrow> py_error + naming" where
  "name_all E i [] st = Inr st"
| "name_all E i (res # rest) st =
     (case name_config E i res of
        Inl e \<Rightarrow> Inl e
      | Inr (country, named_config) \<Rightarrow>
      (case py_nth (split_py named_config ''://'') 0 of
        Inl e \<Rightarrow> Inl e
      | Inr proto \<Rightarrow>
          name_all E (Suc i) rest
            \<lparr>renamed = renamed st @ [res\<lparr>config := named_config\<rparr>],
             by_country = group_append (by_country st) country named_config,
             by_protocol = group_append (by_protocol st) proto named_config\<rparr>))"

text \<open>
  The files. A write is a pair of a path and the content written, in the order of the
  writes; the file system takes every write. \<open>NothingFound\<close> is the message of line
  194, \<open>AllSaved\<close> the one of line 192.
\<close>

datatype message = AllSaved | NothingFound

record outcome =
  written :: "(string \<times> string) list"
  said :: message

definition write_groups ::
  "string \<Rightarrow> (string \<times> string list) list \<Rightarrow> (string \<times> string) list" where
  "write_groups dir groups =
     map (\<lambda>(k, configs). (path_join dir (k @ ''.txt''), join_py [CHR 0x0A] configs)) groups"

definition all_final_links :: "naming \<Rightarrow> string list" where
  "all_final_links st = map config (renamed st)"

definition v2ray_path :: "env \<Rightarrow> string" where
  "v2ray_path E = path_join (path_join (out_dir E) ''v2ray'') ''all_sub.txt''"

definition base64_path :: "env \<Rightarrow> string" where
  "base64_path E = path_join (path_join (out_dir E) ''base64'') ''all_sub.txt''"

text \<open>Lines 171 to 192: what is written once the loop has ended.\<close>

definition write_all :: "env \<Rightarrow> naming \<Rightarrow> (string \<times> string) list" where
  "write_all E st =
     write_groups (path_join (out_dir E) ''regions'') (by_country st)
     @ write_groups (path_join (path_join (out_dir E) ''filtered'') ''subs'') (by_protocol st)
     @ [(v2ray_path E, join_py [CHR 0x0A] (all_final_links st)),
        (base64_path E, b64encode (join_py [CHR 0x0A] (all_final_links st)))]"

text \<open>
  \<open>main\<close>, from line 136 on. \<open>Inl e\<close>: an exception that nothing catches ends the
  process before any file is written.
\<close>

definition main :: "env \<Rightarrow> py_error + outcome" where
  "main E =
     (let unique_configs = get_sources (fetched E);
          final_results = run (world E) (as_completed E unique_configs)
      in if final_results \<noteq> [] then
           (case name_all E 1 final_results
                   \<lparr>renamed = [], by_country = [], by_protocol = []\<rparr> of
              Inl e \<Rightarrow> Inl e
            | Inr st \<Rightarrow> Inr \<lparr>written = write_all E st, said = AllSaved\<rparr>)
         else Inr \<lparr>written = [], said = NothingFound\<rparr>)"

section \<open>Example runs\<close>

definition example_world :: "string \<Rightarrow> string \<Rightarrow> int \<Rightarrow> (real \<times> real) option" where
  "example_world c h p =
     (if h = ''h'' then None
      else if h = ''z'' then Some (1, 10301 / 10000)
      else Some (10, 101209 / 10000))"

definition example_env :: env where
  "example_env =
     \<lparr>fetched = [Body ''dHJvamFuOi8veEA5My4xODQuMjE2LjM0OjQ0MyNvbGQKdmxlc3M6Ly9iQGg6Mgp2bWVzczovL2NAejo4MA==''],
      as_completed = rev,
      world = example_world,
      gethostbyname = (\<lambda>h. if h = ''z'' then Gaierror else Resolved h),
      geo_reader = Some (\<lambda>ip. IsoCode (Some ''US'')),
      brands_list = [''V2XCore''],
      emojis_list = [''!''],
      rng = (\<lambda>k. k),
      out_dir = ''subscriptions''\<rparr>"

definition unreachable_env :: env where
  "unreachable_env =
     \<lparr>fetched = [Body ''dm1lc3M6Ly9hQDEuMi4zLjQ6NDQzCnZsZXNzOi8vYkBbOjoxXTo4NDQzI29sZA==''],
      as_completed = rev,
      world = (\<lambda>c h p. None),
      gethostbyname = (\<lambda>h. Gaierror),
      geo_reader = None,
      brands_list = [''V2XCore''],
      emojis_list = [''!''],
      rng = (\<lambda>k. k),
      out_dir = ''subscriptions''\<rparr>"

section \<open>Lemmas about the library functions and the parser\<close>

lemma split_py_not_Nil: "split_py s sep \<noteq> []"
  by (induction s sep rule: split_py.induct) (auto split: list.splits)

lemma split_py_contains:
  "sep \<noteq> [] \<Longrightarrow> contains s sep \<Longrightarrow> 2 \<le> length (split_py s sep)"
proof (induction s sep rule: split_py.induct)
  case (1 sep)
  then show ?case by simp
next
  case (2 c cs sep)
  show ?case
  proof (cases "prefix sep (c # cs)")
    case True
    with "2.prems" split_py_not_Nil [of "drop (length sep) (c # cs)" sep] show ?thesis
      by (cases "split_py (drop (length sep) (c # cs)) sep") auto
  next
    case False
    with "2.prems" have "contains cs sep" by simp
    with "2.IH"(2) False "2.prems" have "2 \<le> length (split_py cs sep)" by simp
    with False show ?thesis by (auto split: list.splits)
  qed
qed

lemma split1_py_not_Nil: "split1_py s sep \<noteq> []"
  by (induction s sep rule: split1_py.induct) (auto split: list.splits)

lemma split1_py_contains:
  "sep \<noteq> [] \<Longrightarrow> contains s sep \<Longrightarrow> length (split1_py s sep) = 2"
proof (induction s sep rule: split1_py.induct)
  case (1 sep)
  then show ?case by simp
next
  case (2 c cs sep)
  show ?case
  proof (cases "prefix sep (c # cs)")
    case True
    with "2.prems" show ?thesis by simp
  next
    case False
    with "2.prems" have "contains cs sep" by simp
    with "2.IH" False "2.prems" have "length (split1_py cs sep) = 2" by simp
    with False show ?thesis by (auto split: list.splits)
  qed
qed

lemma contains_char: "contains s [c] = (c \<in> set s)"
  by (induction s) auto

lemma rsplit1_py_colon:
  "contains s '':'' \<Longrightarrow> length (rsplit1_py s '':'') = 2"
  using split1_py_contains [of "rev '':''" "rev s"]
  by (simp add: rsplit1_py_def contains_char)

lemma py_nth_Inr: "i < length xs \<Longrightarrow> py_nth xs i = Inr (xs ! i)"
  by (simp add: py_nth_def)

lemma parse_target_unfold:
  assumes "contains cfg ''://''"
  shows "\<exists>hps. parse_target cfg =
           (if contains hps '':''
            then (case py_int (rsplit1_py hps '':'' ! 1) of
                    None \<Rightarrow> Inl ValueError
                  | Some p \<Rightarrow> Inr (Some (strip_py (rsplit1_py hps '':'' ! 0) ''[]'', p)))
            else Inr (Some (hps, 443)))"
proof -
  define uri_part where "uri_part = split_py cfg ''://'' ! 1"
  define bf where "bf = split_py uri_part ''#'' ! 0"
  define host_part where "host_part = split_py bf ''?'' ! 0"
  define hps where
    "hps = (if contains host_part ''@'' then split_py host_part ''@'' ! 1 else host_part)"
  have e1: "py_nth (split_py cfg ''://'') 1 = Inr uri_part"
    using split_py_contains [of "''://''" cfg] assms
    unfolding uri_part_def by (intro py_nth_Inr) simp
  have e2: "py_nth (split_py uri_part ''#'') 0 = Inr bf"
    using split_py_not_Nil [of uri_part "''#''"] unfolding bf_def by (intro py_nth_Inr) simp
  have e3: "py_nth (split_py bf ''?'') 0 = Inr host_part"
    using split_py_not_Nil [of bf "''?''"] unfolding host_part_def by (intro py_nth_Inr) simp
  have e4: "(if contains host_part ''@'' then py_nth (split_py host_part ''@'') 1
             else Inr host_part) = Inr hps"
  proof (cases "contains host_part ''@''")
    case True
    then have "1 < length (split_py host_part ''@'')"
      using split_py_contains [of "''@''" host_part] by simp
    then have "py_nth (split_py host_part ''@'') 1 = Inr (split_py host_part ''@'' ! 1)"
      by (rule py_nth_Inr)
    with True show ?thesis by (simp add: hps_def)
  next
    case False
    then show ?thesis by (simp add: hps_def)
  qed
  have e5: "contains hps '':'' \<Longrightarrow>
            py_nth (rsplit1_py hps '':'') 0 = Inr (rsplit1_py hps '':'' ! 0)
            \<and> py_nth (rsplit1_py hps '':'') 1 = Inr (rsplit1_py hps '':'' ! 1)"
    using rsplit1_py_colon [of hps] by (simp add: py_nth_def)
  have "parse_target cfg =
           (if contains hps '':''
            then (case py_int (rsplit1_py hps '':'' ! 1) of
                    None \<Rightarrow> Inl ValueError
                  | Some p \<Rightarrow> Inr (Some (strip_py (rsplit1_py hps '':'' ! 0) ''[]'', p)))
            else Inr (Some (hps, 443)))"
  proof (cases "contains hps '':''")
    case True
    with e5 have e6: "py_nth (rsplit1_py hps '':'') 0 = Inr (rsplit1_py hps '':'' ! 0)"
      and e7: "py_nth (rsplit1_py hps '':'') 1 = Inr (rsplit1_py hps '':'' ! 1)"
      by simp_all
    show ?thesis
      by (simp only: parse_target_def assms e1 e2 e3 e4 e6 e7 True sum.case if_True
            not_True_eq_False if_False)
  next
    case False
    show ?thesis
      by (simp only: parse_target_def assms e1 e2 e3 e4 False sum.case if_True
            not_True_eq_False if_False)
  qed
  then show ?thesis by blast
qed

lemma parse_target_cases:
  "parse_target cfg = Inr None \<or> parse_target cfg = Inl ValueError
   \<or> (\<exists>t. parse_target cfg = Inr (Some t))"
proof (cases "contains cfg ''://''")
  case False
  then show ?thesis by (simp add: parse_target_def)
next
  case True
  from parse_target_unfold [OF True] obtain hps where
    "parse_target cfg =
           (if contains hps '':''
            then (case py_int (rsplit1_py hps '':'' ! 1) of
                    None \<Rightarrow> Inl ValueError
                  | Some p \<Rightarrow> Inr (Some (strip_py (rsplit1_py hps '':'' ! 0) ''[]'', p)))
            else Inr (Some (hps, 443)))" by blast
  then show ?thesis by (auto split: option.splits)
qed



lemma run_sorted: "sorted (map ping (run w cs))"
  by (simp add: run_def)

lemma get_sources_no_empty: "[] \<notin> set (get_sources fs)"
  by (simp add: get_sources_def)

lemma run_Nil:
  "\<forall>c \<in> set cs. test_single (w c) c = None \<Longrightarrow> run w cs = []"
  by (induction cs) (auto simp: run_def List.map_filter_simps)

section \<open>The claims\<close>

text \<open>
  C1. The claim: when the authority holds credentials (one or more \<open>@\<close>), host and
  port are taken from the segment after the last \<open>@\<close>. The code takes
  \<open>host_part.split('@')[1]\<close>, the segment between the first and the second \<open>@\<close>:
  on a descriptor whose password holds an \<open>@\<close> the host is a piece of the password
  and the port falls back to 443, where the claim gives \<open>example.com\<close> and 8443.
\<close>
theorem credentials_second_segment:
  "parse_target ''trojan://pass@word@example.com:8443'' = Inr (Some (''word'', 443))
   \<and> endpoint_parser ''trojan://pass@word@example.com:8443'' = Some (''word'', 443)"
  by code_simp

text \<open>
  C2, as stated, fails: the parser returns a target with an empty host and port 0, and
  one with port 70000. Lines 86 to 91 check neither the range of the port nor the host.
\<close>
theorem parser_invalid_target_counterexample:
  "endpoint_parser ''vless://:0'' = Some ('''', 0) \<and> \<not> valid_target ('''', 0)
   \<and> endpoint_parser ''vless://h:70000'' = Some (''h'', 70000) \<and> \<not> valid_target (''h'', 70000)"
  by code_simp

text \<open>
  C2, amended. For any input string the Endpoint Parser either returns a complete
  ParsedTarget, a host string and an integer port, or a rejection, and it never throws:
  the steps of lines 77 to 91 either produce a target, take the early return of line
  77, or raise the ValueError of \<open>int\<close>, which is caught; no index is ever out of
  range. The port is any integer and the host may be empty.
\<close>
theorem endpoint_parser_total:
  "(\<exists>t. parse_target cfg = Inr (Some t) \<and> endpoint_parser cfg = Some t)
   \<or> ((parse_target cfg = Inr None \<or> parse_target cfg = Inl ValueError)
       \<and> endpoint_parser cfg = None)"
  using parse_target_cases [of cfg] by (auto simp: endpoint_parser_def)

text \<open>C2 on two descriptors: a bracketed IPv6 literal with a port, and one without.\<close>
theorem endpoint_parser_total_witness:
  "endpoint_parser ''vless://b@[::1]:8443#old'' = Some (''::1'', 8443)
   \<and> endpoint_parser ''vless://b@[::1]'' = None
   \<and> parse_target ''vless://b@[::1]'' = Inl ValueError"
proof -
  have a: "parse_target ''vless://b@[::1]:8443#old'' = Inr (Some (''::1'', 8443))"
    by code_simp
  have b: "parse_target ''vless://b@[::1]'' = Inl ValueError"
    by code_simp
  from a b endpoint_parser_total [of "''vless://b@[::1]:8443#old''"]
    endpoint_parser_total [of "''vless://b@[::1]''"]
  show ?thesis by simp
qed

text \<open>
  C3. The claim: a host that fails name resolution gets the Unknown tag, country code
  \<open>Unknown\<close> and the globe glyph. The handler of line 154 assigns the country code
  \<open>Unk.\<close> (with the globe glyph), while every failure path of
  \<open>get_country_and_flag\<close> returns \<open>Unknown\<close>.
\<close>
theorem resolution_failure_tag:
  "classify (\<lambda>h. Gaierror) None ''no-such-host.invalid'' = Inr (''Unk.'', globe)
   \<and> ''Unk.'' \<noteq> ''Unknown''"
  by (simp add: classify_def)




text \<open>
  C5. For every pair of consecutive elements of the sequence \<open>run\<close> returns, the
  latency of the first is at most the latency of the second, whatever the order
  \<open>completed\<close> in which the probes finish.
\<close>
theorem run_latency_ordered:
  "Suc i < length (run w completed)
   \<Longrightarrow> ping (run w completed ! i) \<le> ping (run w completed ! Suc i)"
  using sorted_nth_mono [of "map ping (run w completed)" i "Suc i"] run_sorted [of w completed]
  by simp

text \<open>C5 on three descriptors, two reachable, completing slowest first.\<close>
theorem run_latency_ordered_witness:
  "length (run example_world [''trojan://x@93.184.216.34:443#old'', ''vless://b@h:2'', ''vmess://c@z:80'']) = 2
   \<and> ping (run example_world [''trojan://x@93.184.216.34:443#old'', ''vless://b@h:2'', ''vmess://c@z:80''] ! 0)
       \<le> ping (run example_world [''trojan://x@93.184.216.34:443#old'', ''vless://b@h:2'', ''vmess://c@z:80''] ! Suc 0)"
proof -
  have r: "run example_world [''trojan://x@93.184.216.34:443#old'', ''vless://b@h:2'', ''vmess://c@z:80'']
    = [\<lparr>config = ''vmess://c@z:80'', ping = 30, host = ''z''\<rparr>,
       \<lparr>config = ''trojan://x@93.184.216.34:443#old'', ping = 120, host = ''93.184.216.34''\<rparr>]"
    by code_simp
  then have l: "Suc 0 < length (run example_world [''trojan://x@93.184.216.34:443#old'', ''vless://b@h:2'', ''vmess://c@z:80''])"
    by simp
  from run_latency_ordered [OF l] r show ?thesis by simp
qed

text \<open>
  C8. When no descriptor is reachable (every probe returns \<open>None\<close>), \<open>run\<close> returns
  the empty list and raises nothing, \<open>main\<close> writes no file and ends normally with the
  message of line 194.
\<close>
theorem nothing_reachable:
  assumes "\<forall>c \<in> set (as_completed E (get_sources (fetched E))). test_single (world E c) c = None"
  shows "run (world E) (as_completed E (get_sources (fetched E))) = []
         \<and> main E = Inr \<lparr>written = [], said = NothingFound\<rparr>"
  using run_Nil [OF assms] by (simp add: main_def)

text \<open>C8 on the two unreachable descriptors of the spec's scenario.\<close>
theorem nothing_reachable_witness:
  "as_completed unreachable_env (get_sources (fetched unreachable_env))
     = [''vless://b@[::1]:8443#old'', ''vmess://a@1.2.3.4:443'']
   \<and> run (world unreachable_env) (as_completed unreachable_env (get_sources (fetched unreachable_env))) = []
   \<and> main unreachable_env = Inr \<lparr>written = [], said = NothingFound\<rparr>"
proof -
  have g: "as_completed unreachable_env (get_sources (fetched unreachable_env))
     = [''vless://b@[::1]:8443#old'', ''vmess://a@1.2.3.4:443'']"
    by code_simp
  have t: "\<forall>c \<in> set (as_completed unreachable_env (get_sources (fetched unreachable_env))).
             test_single (world unreachable_env c) c = None"
    unfolding g by (simp add: unreachable_env_def test_single_def split: sum.splits option.splits)
  from nothing_reachable [OF t] g show ?thesis by simp
qed

text \<open>
  C10. The list \<open>get_sources\<close> returns, which \<open>main\<close> hands to the tester, never
  holds the empty string, whatever the sources returned.
\<close>
theorem get_sources_nonempty_lines: "[] \<notin> set (get_sources fetched_bodies)"
  by (simp add: get_sources_def)

text \<open>C10 on a body whose decoded text has empty lines, and a source that failed.\<close>
theorem get_sources_nonempty_lines_witness:
  "get_sources [Body ''dm1lc3M6Ly9hQDEuMi4zLjQ6NDQzCgoKdmxlc3M6Ly9iQFs6OjFdOjg0NDMjb2xkCg=='', RequestException]
     = [''vmess://a@1.2.3.4:443'', ''vless://b@[::1]:8443#old'']
   \<and> body_lines ''dm1lc3M6Ly9hQDEuMi4zLjQ6NDQzCgoKdmxlc3M6Ly9iQFs6OjFdOjg0NDMjb2xkCg==''
     = [''vmess://a@1.2.3.4:443'', [], [], ''vless://b@[::1]:8443#old'']"
proof -
  have "get_sources [Body ''dm1lc3M6Ly9hQDEuMi4zLjQ6NDQzCgoKdmxlc3M6Ly9iQFs6OjFdOjg0NDMjb2xkCg=='', RequestException]
     = [''vmess://a@1.2.3.4:443'', ''vless://b@[::1]:8443#old'']" by code_simp
  moreover have "body_lines ''dm1lc3M6Ly9hQDEuMi4zLjQ6NDQzCgoKdmxlc3M6Ly9iQFs6OjFdOjg0NDMjb2xkCg==''
     = [''vmess://a@1.2.3.4:443'', [], [], ''vless://b@[::1]:8443#old'']" by code_simp
  ultimately show ?thesis
    using get_sources_nonempty_lines [of "[Body ''dm1lc3M6Ly9hQDEuMi4zLjQ6NDQzCgoKdmxlc3M6Ly9iQFs6OjFdOjg0NDMjb2xkCg=='', RequestException]"]
    by simp
qed

end
